theory Spec2Isabelle
  imports Complex_Main
begin

section \<open>Python values, exceptions and the world outside the module\<close>

text \<open>
  The module \<^verbatim>\<open>bittrex/bittrex.py\<close> is embedded function by function. Python \<^verbatim>\<open>str\<close>
  values are HOL strings read as their UTF-8 bytes, so \<^verbatim>\<open>str.encode()\<close> keeps the
  characters; a \<^verbatim>\<open>float\<close> is the real number it denotes, and the arithmetic on floats,
  which rounds, is taken from the runtime. A raised exception is the left summand of a
  result.
\<close>

datatype pyval =
    PNone
  | PBool bool
  | PInt int
  | PFloat real
  | PStr string
  | PBytes string
  | PDict "(pyval \<times> pyval) list"
  | PObject string

datatype exn_class =
    NameError | KeyError | TypeError | ValueError | AttributeError | ImportError
  | ZeroDivisionError | UnicodeDecodeError
  | Timeout | ConnectionError | JSONDecodeError | OtherException
  | KeyboardInterrupt | SystemExit

text \<open>An exception object: its class and the text \<^verbatim>\<open>str(e)\<close> gives.\<close>

datatype py_exn = PyExn exn_class string

fun str_exn :: "py_exn \<Rightarrow> string" where
  "str_exn (PyExn k msg) = msg"

text \<open>\<^verbatim>\<open>except Exception\<close> catches every class but the two that derive from
  \<^verbatim>\<open>BaseException\<close> directly.\<close>

fun is_Exception :: "py_exn \<Rightarrow> bool" where
  "is_Exception (PyExn k msg) = (k \<noteq> KeyboardInterrupt \<and> k \<noteq> SystemExit)"

text \<open>A decoded JSON document, also the shape of the dictionary \<^verbatim>\<open>_api_query\<close> makes up.\<close>

datatype json =
    JNull
  | JBool bool
  | JNum real
  | JStr string
  | JList "json list"
  | JObj "(string \<times> json) list"

datatype hval = HStr string | HBytes string

text \<open>What \<^verbatim>\<open>requests.get\<close> is called with.\<close>

record request =
  meth :: string
  url :: string
  headers :: "(string \<times> hval) list"
  timeout :: nat

text \<open>
  The library functions and the environment the module relies on, none of them code of
  the repository: the hash functions of \<^verbatim>\<open>hashlib\<close> and \<^verbatim>\<open>hmac\<close>, \<^verbatim>\<open>repr\<close> of floats and
  containers, the product, difference and quotient of two floats as the machine rounds
  them, \<^verbatim>\<open>str.lower\<close>, the time that passes at each clock event, the HTTP exchange followed by
  \<^verbatim>\<open>response.json()\<close> (indexed by the number of requests sent before), and what
  \<^verbatim>\<open>decrypt\<close> needs: whether pycrypto was importable, the password typed at the prompt,
  the cipher, \<^verbatim>\<open>ast.literal_eval\<close> and \<^verbatim>\<open>bytes.decode\<close>.
\<close>

record runtime =
  sha512_hexdigest :: "string \<Rightarrow> string"
  hmac_sha512_hexdigest :: "string \<Rightarrow> string \<Rightarrow> string"
  py_repr :: "pyval \<Rightarrow> string"
  float_mul :: "real \<Rightarrow> real \<Rightarrow> real"
  float_sub :: "real \<Rightarrow> real \<Rightarrow> real"
  float_div :: "real \<Rightarrow> real \<Rightarrow> real"
  str_lower :: "string \<Rightarrow> string"
  elapse :: "nat \<Rightarrow> real"
  requests_get_json :: "nat \<Rightarrow> request \<Rightarrow> py_exn + json"
  encrypted :: bool
  getpass :: string
  aes_new :: "string \<Rightarrow> py_exn + string"
  aes_decrypt :: "string \<Rightarrow> pyval \<Rightarrow> py_exn + string"
  literal_eval :: "string \<Rightarrow> py_exn + pyval"
  bytes_decode :: "string \<Rightarrow> py_exn + string"

text \<open>
  The mutable world: the wall clock, the number of clock events so far, the durations
  \<^verbatim>\<open>time.sleep\<close> was asked for, and the requests handed to the HTTP library.
\<close>

record world =
  clock :: real
  tick :: nat
  sleeps :: "real list"
  sent :: "request list"

definition time_time :: "runtime \<Rightarrow> world \<Rightarrow> real \<times> world" where
  "time_time rt w =
     (let t = clock w + elapse rt (tick w)
      in (t, w\<lparr>clock := t, tick := Suc (tick w)\<rparr>))"

definition time_sleep :: "runtime \<Rightarrow> real \<Rightarrow> world \<Rightarrow> world" where
  "time_sleep rt d w =
     w\<lparr>clock := clock w + d + elapse rt (tick w), tick := Suc (tick w),
       sleeps := sleeps w @ [d]\<rparr>"

section \<open>Strings: \<^verbatim>\<open>str\<close>, \<^verbatim>\<open>str.format\<close>, \<^verbatim>\<open>str.lower\<close>, \<^verbatim>\<open>urlencode\<close>\<close>

fun str_nat :: "nat \<Rightarrow> string" where
  "str_nat n =
     (if n < 10 then [''0123456789'' ! n]
      else str_nat (n div 10) @ [''0123456789'' ! (n mod 10)])"

declare str_nat.simps [simp del]

definition str_int :: "int \<Rightarrow> string" where
  "str_int i = (if i < 0 then CHR ''-'' # str_nat (nat (- i)) else str_nat (nat i))"

text \<open>\<^verbatim>\<open>int(x)\<close> of a float truncates towards zero.\<close>

definition py_int :: "real \<Rightarrow> int" where
  "py_int x = (if 0 \<le> x then \<lfloor>x\<rfloor> else \<lceil>x\<rceil>)"

text \<open>\<^verbatim>\<open>str(v)\<close>; the text of floats and containers is the runtime's \<^verbatim>\<open>repr\<close>.\<close>

fun py_str :: "runtime \<Rightarrow> pyval \<Rightarrow> string" where
  "py_str rt (PStr s) = s"
| "py_str rt PNone = ''None''"
| "py_str rt (PBool b) = (if b then ''True'' else ''False'')"
| "py_str rt (PInt i) = str_int i"
| "py_str rt v = py_repr rt v"

text \<open>
  \<^verbatim>\<open>template.format(**kwargs)\<close> for templates whose replacement fields are plain names:
  \<^verbatim>\<open>{{\<close> and \<^verbatim>\<open>}}\<close> are literal braces, \<^verbatim>\<open>{name}\<close> is replaced by the argument of that
  name (which is not scanned again), a missing name is a \<^verbatim>\<open>KeyError\<close> and a lone brace
  a \<^verbatim>\<open>ValueError\<close>. \<open>field\<close> holds the name being read, if any.
\<close>

fun py_format_from :: "(string \<times> string) list \<Rightarrow> string option \<Rightarrow> string \<Rightarrow> py_exn + string" where
  "py_format_from kw None [] = Inr []"
| "py_format_from kw (Some name) [] =
     Inl (PyExn ValueError ''expected } before end of string'')"
| "py_format_from kw (Some name) (c # cs) =
     (if c = CHR 0x7D then
        (case map_of kw name of
           None \<Rightarrow> Inl (PyExn KeyError name)
         | Some v \<Rightarrow> (case py_format_from kw None cs of Inl e \<Rightarrow> Inl e | Inr r \<Rightarrow> Inr (v @ r)))
      else py_format_from kw (Some (name @ [c])) cs)"
| "py_format_from kw None (c # cs) =
     (if c = CHR 0x7B then
        (case cs of
           [] \<Rightarrow> Inl (PyExn ValueError ''Single { encountered in format string'')
         | d # ds \<Rightarrow>
             if d = CHR 0x7B
             then (case py_format_from kw None ds of Inl e \<Rightarrow> Inl e | Inr r \<Rightarrow> Inr (c # r))
             else py_format_from kw (Some []) cs)
      else if c = CHR 0x7D then
        (case cs of
           [] \<Rightarrow> Inl (PyExn ValueError ''Single } encountered in format string'')
         | d # ds \<Rightarrow>
             if d = CHR 0x7D
             then (case py_format_from kw None ds of Inl e \<Rightarrow> Inl e | Inr r \<Rightarrow> Inr (c # r))
             else Inl (PyExn ValueError ''Single } encountered in format string''))
      else (case py_format_from kw None cs of Inl e \<Rightarrow> Inl e | Inr r \<Rightarrow> Inr (c # r)))"

definition py_format :: "string \<Rightarrow> (string \<times> string) list \<Rightarrow> py_exn + string" where
  "py_format template kw = py_format_from kw None template"

text \<open>
  What \<^verbatim>\<open>str.lower()\<close> does on ASCII text (the concrete runtime below uses it), and
  \<^verbatim>\<open>str.endswith\<close>.
\<close>

definition lower_char :: "char \<Rightarrow> char" where
  "lower_char c =
     (case map_of (zip ''ABCDEFGHIJKLMNOPQRSTUVWXYZ'' ''abcdefghijklmnopqrstuvwxyz'') c of
        None \<Rightarrow> c
      | Some d \<Rightarrow> d)"

definition lower :: "string \<Rightarrow> string" where
  "lower s = map lower_char s"

definition endswith :: "string \<Rightarrow> string \<Rightarrow> bool" where
  "endswith s suffix =
     (length suffix \<le> length s \<and> drop (length s - length suffix) s = suffix)"

text \<open>
  \<^verbatim>\<open>urllib.parse.quote_plus\<close> byte by byte: an unreserved byte stays, a space becomes
  \<^verbatim>\<open>+\<close>, every other byte becomes \<^verbatim>\<open>%XX\<close> in upper-case hexadecimal.
\<close>

definition always_safe :: string where
  "always_safe =
     ''ABCDEFGHIJKLMNOPQRSTUVWXYZabcdefghijklmnopqrstuvwxyz0123456789_.-~''"

definition hex_digit :: "nat \<Rightarrow> char" where
  "hex_digit n = ''0123456789ABCDEF'' ! n"

definition quote_char :: "char \<Rightarrow> string" where
  "quote_char c =
     (if c \<in> set always_safe then [c]
      else if c = CHR '' '' then ''+''
      else [CHR ''%'', hex_digit ((of_char c :: nat) div 16),
            hex_digit ((of_char c :: nat) mod 16)])"

definition quote_plus :: "string \<Rightarrow> string" where
  "quote_plus s = concat (map quote_char s)"

text \<open>\<^verbatim>\<open>'&'.join(l)\<close>.\<close>

fun join_amp :: "string list \<Rightarrow> string" where
  "join_amp [] = []"
| "join_amp [x] = x"
| "join_amp (x # y # ys) = x @ ''&'' @ join_amp (y # ys)"

text \<open>
  \<^verbatim>\<open>urlencode(query)\<close> of a dictionary with \<^verbatim>\<open>str\<close> keys, in the order of its items: a
  \<^verbatim>\<open>bytes\<close> value is quoted as it is, any other value through \<^verbatim>\<open>str\<close>.
\<close>

definition urlencode :: "runtime \<Rightarrow> (string \<times> pyval) list \<Rightarrow> string" where
  "urlencode rt query =
     join_amp (map (\<lambda>(k, v). quote_plus k @ ''='' @
                             quote_plus (case v of PBytes b \<Rightarrow> b | _ \<Rightarrow> py_str rt v)) query)"

section \<open>Module constants\<close>

definition API_URI :: string where
  "API_URI = ''https://api.bittrex.com''"

definition API_V3_0 :: string where
  "API_V3_0 = ''v3''"

definition BASE_PATH :: string where
  "BASE_PATH = ''/v3{path}''"

definition PROTECTION_PUB :: string where
  "PROTECTION_PUB = ''pub''"

definition PROTECTION_PRV :: string where
  "PROTECTION_PRV = ''prv''"

text \<open>
  The names bound at module level, in source order, with their values. A name that is
  not bound there (nor a builtin) raises \<^verbatim>\<open>NameError\<close> when it is evaluated. The names
  \<^verbatim>\<open>AES\<close>, \<^verbatim>\<open>getpass\<close>, \<^verbatim>\<open>ast\<close> and \<^verbatim>\<open>json\<close> are bound only when pycrypto is importable.
\<close>

definition module_globals :: "runtime \<Rightarrow> (string \<times> pyval) list" where
  "module_globals rt =
     [(''time'', PObject ''module''), (''hmac'', PObject ''module''),
      (''hashlib'', PObject ''module''), (''sys'', PObject ''module''),
      (''urlencode'', PObject ''function'')] @
     (if encrypted rt
      then [(''AES'', PObject ''module''), (''getpass'', PObject ''module''),
            (''ast'', PObject ''module''), (''json'', PObject ''module'')]
      else []) @
     [(''encrypted'', PBool (encrypted rt)),
      (''requests'', PObject ''module''),
      (''BUY_ORDERBOOK'', PStr ''buy''),
      (''SELL_ORDERBOOK'', PStr ''sell''),
      (''BOTH_ORDERBOOK'', PStr ''both''),
      (''TRADE_FEE'', PFloat (25 / 10000)),
      (''TICKINTERVAL_ONEMIN'', PStr ''oneMin''),
      (''TICKINTERVAL_FIVEMIN'', PStr ''fiveMin''),
      (''TICKINTERVAL_HOUR'', PStr ''hour''),
      (''TICKINTERVAL_THIRTYMIN'', PStr ''thirtyMin''),
      (''TICKINTERVAL_DAY'', PStr ''Day''),
      (''ORDERTYPE_LIMIT'', PStr ''LIMIT''),
      (''ORDERTYPE_MARKET'', PStr ''MARKET''),
      (''TIMEINEFFECT_GOOD_TIL_CANCELLED'', PStr ''GOOD_TIL_CANCELLED''),
      (''TIMEINEFFECT_IMMEDIATE_OR_CANCEL'', PStr ''IMMEDIATE_OR_CANCEL''),
      (''TIMEINEFFECT_FILL_OR_KILL'', PStr ''FILL_OR_KILL''),
      (''CONDITIONTYPE_NONE'', PStr ''NONE''),
      (''CONDITIONTYPE_GREATER_THAN'', PStr ''GREATER_THAN''),
      (''CONDITIONTYPE_LESS_THAN'', PStr ''LESS_THAN''),
      (''CONDITIONTYPE_STOP_LOSS_FIXED'', PStr ''STOP_LOSS_FIXED''),
      (''CONDITIONTYPE_STOP_LOSS_PERCENTAGE'', PStr ''STOP_LOSS_PERCENTAGE''),
      (''API_URI'', PStr API_URI),
      (''API_V3_0'', PStr API_V3_0),
      (''BASE_PATH'', PStr BASE_PATH),
      (''PROTECTION_PUB'', PStr PROTECTION_PUB),
      (''PROTECTION_PRV'', PStr PROTECTION_PRV),
      (''encrypt'', PObject ''function''),
      (''Bittrex'', PObject ''class'')]"

definition name_error :: "string \<Rightarrow> py_exn" where
  "name_error n =
     PyExn NameError (''name '' @ [CHR 0x27] @ n @ [CHR 0x27] @ '' is not defined'')"

definition load_global :: "runtime \<Rightarrow> string \<Rightarrow> py_exn + pyval" where
  "load_global rt n =
     (case map_of (module_globals rt) n of
        None \<Rightarrow> Inl (name_error n)
      | Some v \<Rightarrow> Inr v)"

text \<open>
  A dictionary display \<^verbatim>\<open>{NAME1: v1, NAME2: v2}\<close> whose keys are global names and whose
  values are literals: the keys are evaluated from left to right.
\<close>

fun dict_display :: "runtime \<Rightarrow> (string \<times> pyval) list \<Rightarrow> py_exn + (pyval \<times> pyval) list" where
  "dict_display rt [] = Inr []"
| "dict_display rt ((n, v) # kvs) =
     (case load_global rt n of
        Inl e \<Rightarrow> Inl e
      | Inr k \<Rightarrow> (case dict_display rt kvs of Inl e \<Rightarrow> Inl e | Inr d \<Rightarrow> Inr ((k, v) # d)))"

text \<open>Truth value of an object, as \<^verbatim>\<open>if x:\<close> tests it.\<close>

fun py_truthy :: "pyval \<Rightarrow> bool" where
  "py_truthy PNone = False"
| "py_truthy (PBool b) = b"
| "py_truthy (PInt i) = (i \<noteq> 0)"
| "py_truthy (PFloat x) = (x \<noteq> 0)"
| "py_truthy (PStr s) = (s \<noteq> [])"
| "py_truthy (PBytes s) = (s \<noteq> [])"
| "py_truthy (PDict d) = (d \<noteq> [])"
| "py_truthy (PObject n) = True"

section \<open>The client\<close>

record client =
  api_key :: pyval
  api_secret :: pyval
  call_rate :: real
  last_call :: "real option"
  base_url :: string

text \<open>
  \<^verbatim>\<open>Bittrex.__init__\<close>. \<^verbatim>\<open>1.0 / calls_per_second\<close> raises for a zero rate; the
  caller passes 1 where the source's default applies.
\<close>

definition Bittrex_init :: "runtime \<Rightarrow> pyval \<Rightarrow> pyval \<Rightarrow> real \<Rightarrow> py_exn + client" where
  "Bittrex_init rt key secret calls_per_second =
     (let k = (if key \<noteq> PNone then py_str rt key else []);
          s = (if secret \<noteq> PNone then py_str rt secret else [])
      in if calls_per_second = 0
         then Inl (PyExn ZeroDivisionError ''float division by zero'')
         else (case py_format ''{uri}{path}'' [(''uri'', API_URI), (''path'', BASE_PATH)] of
                 Inl e \<Rightarrow> Inl e
               | Inr u \<Rightarrow>
                   Inr \<lparr>api_key = PStr k, api_secret = PStr s,
                        call_rate = float_div rt 1 calls_per_second, last_call = None,
                        base_url = u\<rparr>))"

text \<open>\<^verbatim>\<open>s.encode()\<close>: only \<^verbatim>\<open>str\<close> has the method.\<close>

fun py_encode :: "pyval \<Rightarrow> py_exn + string" where
  "py_encode (PStr s) = Inr s"
| "py_encode v = Inl (PyExn AttributeError ''object has no attribute encode'')"

text \<open>\<^verbatim>\<open>Bittrex.dispatch\<close>: sign the request and send it.\<close>

definition dispatch ::
  "runtime \<Rightarrow> client \<Rightarrow> world \<Rightarrow> string \<Rightarrow> string \<Rightarrow> string option \<Rightarrow> (py_exn + json) \<times> world" where
  "dispatch rt self w request_url api_timestamp body =
     (let request_body = (case body of None \<Rightarrow> [] | Some b \<Rightarrow> if b \<noteq> [] then b else []);
          signature = sha512_hexdigest rt request_body;
          pre_sign = api_timestamp @ request_url @ ''GET'' @ signature
      in case py_encode (api_secret self) of
           Inl e \<Rightarrow> (Inl e, w)
         | Inr secret_bytes \<Rightarrow>
             (let api_sign = hmac_sha512_hexdigest rt secret_bytes pre_sign
              in case py_encode (api_key self) of
                   Inl e \<Rightarrow> (Inl e, w)
                 | Inr key_bytes \<Rightarrow>
                     (let req = \<lparr>meth = ''GET'', url = request_url,
                                 headers = [(''Api-Key'', HBytes key_bytes),
                                            (''Api-Timestamp'', HStr api_timestamp),
                                            (''Api-Content-Hash'', HStr signature),
                                            (''Api-Signature'', HStr api_sign)],
                                 timeout = 10\<rparr>
                      in (requests_get_json rt (length (sent w)) req,
                          w\<lparr>sent := sent w @ [req]\<rparr>))))"

text \<open>\<^verbatim>\<open>Bittrex.wait\<close>.\<close>

definition wait :: "runtime \<Rightarrow> client \<Rightarrow> world \<Rightarrow> client \<times> world" where
  "wait rt self w =
     (case last_call self of
        None \<Rightarrow>
          (let (t, w1) = time_time rt w
           in (self\<lparr>last_call := Some t\<rparr>, w1))
      | Some lc \<Rightarrow>
          (let (now, w1) = time_time rt w;
               passed = float_sub rt now lc;
               w2 = (if passed < call_rate self
                     then time_sleep rt (float_sub rt (call_rate self) passed) w1
                     else w1);
               (t, w3) = time_time rt w2
           in (self\<lparr>last_call := Some t\<rparr>, w3)))"

text \<open>The dictionary \<^verbatim>\<open>_api_query\<close> returns from its \<^verbatim>\<open>except\<close> clause.\<close>

definition no_api_response :: "py_exn \<Rightarrow> json" where
  "no_api_response e =
     JObj [(''success'', JBool False),
           (''message'', JStr ''NO_API_RESPONSE''),
           (''result'', JNull),
           (''error'', JStr (str_exn e))]"

text \<open>
  \<^verbatim>\<open>Bittrex._api_query\<close>. The argument \<open>protection\<close> is accepted and never read, as in
  the source.
\<close>

definition api_query ::
  "runtime \<Rightarrow> client \<Rightarrow> world \<Rightarrow> pyval \<Rightarrow> pyval \<Rightarrow> (string \<times> pyval) list option \<Rightarrow>
   string option \<Rightarrow> (py_exn + json) \<times> client \<times> world" where
  "api_query rt self w protection path_dict options body =
     (let options1 = (case options of None \<Rightarrow> [] | Some os \<Rightarrow> if os = [] then [] else os)
      in case py_format (base_url self) [(''path'', py_str rt path_dict)] of
           Inl e \<Rightarrow> (Inl e, self, w)
         | Inr request_url0 \<Rightarrow>
             (let (t, w1) = time_time rt w;
                  nonce = str_int (py_int (float_mul rt t 1000));
                  request_url = request_url0 @ urlencode rt options1;
                  (self1, w2) = wait rt self w1;
                  (r, w3) = dispatch rt self1 w2 request_url nonce body
              in case r of
                   Inr response \<Rightarrow> (Inr response, self1, w3)
                 | Inl e \<Rightarrow>
                     if is_Exception e then (Inr (no_api_response e), self1, w3)
                     else (Inl e, self1, w3)))"

section \<open>Endpoint operations\<close>

type_synonym 'a outcome = "(py_exn + 'a) \<times> client \<times> world"

subsection \<open>Operations whose path is a string\<close>

definition get_markets :: "runtime \<Rightarrow> client \<Rightarrow> world \<Rightarrow> json outcome" where
  "get_markets rt self w = api_query rt self w PNone (PStr ''/markets'') None None"

definition get_currencies :: "runtime \<Rightarrow> client \<Rightarrow> world \<Rightarrow> json outcome" where
  "get_currencies rt self w = api_query rt self w PNone (PStr ''/currencies'') None None"

definition get_market_summaries :: "runtime \<Rightarrow> client \<Rightarrow> world \<Rightarrow> json outcome" where
  "get_market_summaries rt self w =
     api_query rt self w PNone (PStr ''/markets/summaries'') None None"

definition get_market_summary :: "runtime \<Rightarrow> client \<Rightarrow> world \<Rightarrow> pyval \<Rightarrow> json outcome" where
  "get_market_summary rt self w market =
     (case py_format ''/markets/{marketSymbol}/summary'' [(''marketSymbol'', py_str rt market)] of
        Inl e \<Rightarrow> (Inl e, self, w)
      | Inr p \<Rightarrow> api_query rt self w PNone (PStr p) None None)"

definition get_market_ticker :: "runtime \<Rightarrow> client \<Rightarrow> world \<Rightarrow> pyval \<Rightarrow> json outcome" where
  "get_market_ticker rt self w market =
     (case py_format ''/markets/{marketSymbol}/ticker'' [(''marketSymbol'', py_str rt market)] of
        Inl e \<Rightarrow> (Inl e, self, w)
      | Inr p \<Rightarrow> api_query rt self w PNone (PStr p) None None)"

subsection \<open>Operations whose path is a dictionary keyed by API version\<close>

text \<open>
  Each of these evaluates the dictionary display given as \<^verbatim>\<open>path_dict\<close> first, then the
  other arguments, then calls \<^verbatim>\<open>_api_query\<close>. \<open>with_path_dict\<close> is that sequencing.
\<close>

definition with_path_dict ::
  "runtime \<Rightarrow> client \<Rightarrow> world \<Rightarrow> (string \<times> pyval) list \<Rightarrow>
   (string \<times> pyval) list option \<Rightarrow> string \<Rightarrow> json outcome" where
  "with_path_dict rt self w display options protection =
     (case dict_display rt display of
        Inl e \<Rightarrow> (Inl e, self, w)
      | Inr pd \<Rightarrow> api_query rt self w (PStr protection) (PDict pd) options None)"

text \<open>
  The conditional expressions given as \<^verbatim>\<open>options\<close> by the operations with an optional
  filter: \<^verbatim>\<open>{...} if market else None\<close> and its siblings.
\<close>

definition optional_market :: "pyval \<Rightarrow> (string \<times> pyval) list option" where
  "optional_market market =
     (if py_truthy market then Some [(''market'', market), (''marketname'', market)] else None)"

definition optional_currency :: "pyval \<Rightarrow> (string \<times> pyval) list option" where
  "optional_currency currency =
     (if py_truthy currency
      then Some [(''currency'', currency), (''currencyname'', currency)] else None)"

definition optional_currencyname :: "pyval \<Rightarrow> (string \<times> pyval) list option" where
  "optional_currencyname currency =
     (if py_truthy currency then Some [(''currencyname'', currency)] else None)"

definition buy_limit :: "runtime \<Rightarrow> client \<Rightarrow> world \<Rightarrow> pyval \<Rightarrow> pyval \<Rightarrow> pyval \<Rightarrow> json outcome" where
  "buy_limit rt self w market quantity rate =
     with_path_dict rt self w [(''API_V1_1'', PStr ''/market/buylimit'')]
       (Some [(''market'', market), (''quantity'', quantity), (''rate'', rate)])
       PROTECTION_PRV"

definition sell_limit :: "runtime \<Rightarrow> client \<Rightarrow> world \<Rightarrow> pyval \<Rightarrow> pyval \<Rightarrow> pyval \<Rightarrow> json outcome" where
  "sell_limit rt self w market quantity rate =
     with_path_dict rt self w [(''API_V1_1'', PStr ''/market/selllimit'')]
       (Some [(''market'', market), (''quantity'', quantity), (''rate'', rate)])
       PROTECTION_PRV"

definition cancel :: "runtime \<Rightarrow> client \<Rightarrow> world \<Rightarrow> pyval \<Rightarrow> json outcome" where
  "cancel rt self w uuid =
     with_path_dict rt self w
       [(''API_V1_1'', PStr ''/market/cancel''), (''API_V2_0'', PStr ''/key/market/tradecancel'')]
       (Some [(''uuid'', uuid), (''orderid'', uuid)])
       PROTECTION_PRV"

definition get_open_orders :: "runtime \<Rightarrow> client \<Rightarrow> world \<Rightarrow> pyval \<Rightarrow> json outcome" where
  "get_open_orders rt self w market =
     with_path_dict rt self w
       [(''API_V1_1'', PStr ''/market/getopenorders''),
        (''API_V2_0'', PStr ''/key/market/getopenorders'')]
       (optional_market market) PROTECTION_PRV"

definition get_balances :: "runtime \<Rightarrow> client \<Rightarrow> world \<Rightarrow> json outcome" where
  "get_balances rt self w =
     with_path_dict rt self w
       [(''API_V1_1'', PStr ''/account/getbalances''),
        (''API_V2_0'', PStr ''/key/balance/GetBalances'')]
       None PROTECTION_PRV"

definition get_balance :: "runtime \<Rightarrow> client \<Rightarrow> world \<Rightarrow> pyval \<Rightarrow> json outcome" where
  "get_balance rt self w currency =
     with_path_dict rt self w
       [(''API_V1_1'', PStr ''/account/getbalance''),
        (''API_V2_0'', PStr ''/key/balance/getbalance'')]
       (Some [(''currency'', currency), (''currencyname'', currency)])
       PROTECTION_PRV"

definition get_deposit_address :: "runtime \<Rightarrow> client \<Rightarrow> world \<Rightarrow> pyval \<Rightarrow> json outcome" where
  "get_deposit_address rt self w currency =
     with_path_dict rt self w
       [(''API_V1_1'', PStr ''/account/getdepositaddress''),
        (''API_V2_0'', PStr ''/key/balance/getdepositaddress'')]
       (Some [(''currency'', currency), (''currencyname'', currency)])
       PROTECTION_PRV"

text \<open>\<^verbatim>\<open>withdraw\<close> builds its options before the call: the statements above the \<^verbatim>\<open>return\<close>.\<close>

definition withdraw_options :: "pyval \<Rightarrow> pyval \<Rightarrow> pyval \<Rightarrow> pyval \<Rightarrow> (string \<times> pyval) list" where
  "withdraw_options currency quantity address paymentid =
     (let options = [(''currency'', currency), (''quantity'', quantity), (''address'', address)]
      in if py_truthy paymentid then options @ [(''paymentid'', paymentid)] else options)"

definition withdraw ::
  "runtime \<Rightarrow> client \<Rightarrow> world \<Rightarrow> pyval \<Rightarrow> pyval \<Rightarrow> pyval \<Rightarrow> pyval \<Rightarrow> json outcome" where
  "withdraw rt self w currency quantity address paymentid =
     (let options = withdraw_options currency quantity address paymentid
      in with_path_dict rt self w
           [(''API_V1_1'', PStr ''/account/withdraw''),
            (''API_V2_0'', PStr ''/key/balance/withdrawcurrency'')]
           (Some options) PROTECTION_PRV)"

definition get_order_history :: "runtime \<Rightarrow> client \<Rightarrow> world \<Rightarrow> pyval \<Rightarrow> json outcome" where
  "get_order_history rt self w market =
     (if py_truthy market
      then with_path_dict rt self w
             [(''API_V1_1'', PStr ''/account/getorderhistory''),
              (''API_V2_0'', PStr ''/key/market/GetOrderHistory'')]
             (Some [(''market'', market), (''marketname'', market)])
             PROTECTION_PRV
      else with_path_dict rt self w
             [(''API_V1_1'', PStr ''/account/getorderhistory''),
              (''API_V2_0'', PStr ''/key/orders/getorderhistory'')]
             None PROTECTION_PRV)"

definition get_order :: "runtime \<Rightarrow> client \<Rightarrow> world \<Rightarrow> pyval \<Rightarrow> json outcome" where
  "get_order rt self w uuid =
     with_path_dict rt self w
       [(''API_V1_1'', PStr ''/account/getorder''),
        (''API_V2_0'', PStr ''/key/orders/getorder'')]
       (Some [(''uuid'', uuid), (''orderid'', uuid)])
       PROTECTION_PRV"

definition get_withdrawal_history :: "runtime \<Rightarrow> client \<Rightarrow> world \<Rightarrow> pyval \<Rightarrow> json outcome" where
  "get_withdrawal_history rt self w currency =
     with_path_dict rt self w
       [(''API_V1_1'', PStr ''/account/getwithdrawalhistory''),
        (''API_V2_0'', PStr ''/key/balance/getwithdrawalhistory'')]
       (optional_currency currency) PROTECTION_PRV"

definition get_deposit_history :: "runtime \<Rightarrow> client \<Rightarrow> world \<Rightarrow> pyval \<Rightarrow> json outcome" where
  "get_deposit_history rt self w currency =
     with_path_dict rt self w
       [(''API_V1_1'', PStr ''/account/getdeposithistory''),
        (''API_V2_0'', PStr ''/key/balance/getdeposithistory'')]
       (optional_currency currency) PROTECTION_PRV"

definition get_wallet_health :: "runtime \<Rightarrow> client \<Rightarrow> world \<Rightarrow> json outcome" where
  "get_wallet_health rt self w =
     with_path_dict rt self w [(''API_V2_0'', PStr ''/pub/Currencies/GetWalletHealth'')]
       None PROTECTION_PUB"

definition get_balance_distribution :: "runtime \<Rightarrow> client \<Rightarrow> world \<Rightarrow> json outcome" where
  "get_balance_distribution rt self w =
     with_path_dict rt self w [(''API_V2_0'', PStr ''/pub/Currency/GetBalanceDistribution'')]
       None PROTECTION_PUB"

definition get_pending_withdrawals :: "runtime \<Rightarrow> client \<Rightarrow> world \<Rightarrow> pyval \<Rightarrow> json outcome" where
  "get_pending_withdrawals rt self w currency =
     with_path_dict rt self w [(''API_V2_0'', PStr ''/key/balance/getpendingwithdrawals'')]
       (optional_currencyname currency) PROTECTION_PRV"

definition get_pending_deposits :: "runtime \<Rightarrow> client \<Rightarrow> world \<Rightarrow> pyval \<Rightarrow> json outcome" where
  "get_pending_deposits rt self w currency =
     with_path_dict rt self w [(''API_V2_0'', PStr ''/key/balance/getpendingdeposits'')]
       (optional_currencyname currency) PROTECTION_PRV"

definition generate_deposit_address :: "runtime \<Rightarrow> client \<Rightarrow> world \<Rightarrow> pyval \<Rightarrow> json outcome" where
  "generate_deposit_address rt self w currency =
     with_path_dict rt self w [(''API_V2_0'', PStr ''/key/balance/getpendingdeposits'')]
       (Some [(''currencyname'', currency)])
       PROTECTION_PRV"

definition trade_options ::
  "pyval \<Rightarrow> pyval \<Rightarrow> pyval \<Rightarrow> pyval \<Rightarrow> pyval \<Rightarrow> pyval \<Rightarrow> pyval \<Rightarrow> (string \<times> pyval) list" where
  "trade_options market order_type quantity rate time_in_effect condition_type target =
     [(''marketname'', market), (''ordertype'', order_type), (''quantity'', quantity),
      (''rate'', rate), (''timeInEffect'', time_in_effect),
      (''conditiontype'', condition_type), (''target'', target)]"

definition trade_sell ::
  "runtime \<Rightarrow> client \<Rightarrow> world \<Rightarrow> pyval \<Rightarrow> pyval \<Rightarrow> pyval \<Rightarrow> pyval \<Rightarrow> pyval \<Rightarrow> pyval \<Rightarrow> pyval \<Rightarrow>
   json outcome" where
  "trade_sell rt self w market order_type quantity rate time_in_effect condition_type target =
     with_path_dict rt self w [(''API_V2_0'', PStr ''/key/market/tradesell'')]
       (Some (trade_options market order_type quantity rate time_in_effect condition_type target))
       PROTECTION_PRV"

definition trade_buy ::
  "runtime \<Rightarrow> client \<Rightarrow> world \<Rightarrow> pyval \<Rightarrow> pyval \<Rightarrow> pyval \<Rightarrow> pyval \<Rightarrow> pyval \<Rightarrow> pyval \<Rightarrow> pyval \<Rightarrow>
   json outcome" where
  "trade_buy rt self w market order_type quantity rate time_in_effect condition_type target =
     with_path_dict rt self w [(''API_V2_0'', PStr ''/key/market/tradebuy'')]
       (Some (trade_options market order_type quantity rate time_in_effect condition_type target))
       PROTECTION_PRV"

definition get_candles :: "runtime \<Rightarrow> client \<Rightarrow> world \<Rightarrow> pyval \<Rightarrow> pyval \<Rightarrow> json outcome" where
  "get_candles rt self w market tick_interval =
     with_path_dict rt self w [(''API_V2_0'', PStr ''/pub/market/GetTicks'')]
       (Some [(''marketName'', market), (''tickInterval'', tick_interval)])
       PROTECTION_PUB"

definition get_latest_candle :: "runtime \<Rightarrow> client \<Rightarrow> world \<Rightarrow> pyval \<Rightarrow> pyval \<Rightarrow> json outcome" where
  "get_latest_candle rt self w market tick_interval =
     with_path_dict rt self w [(''API_V2_0'', PStr ''/pub/market/GetLatestTick'')]
       (Some [(''marketName'', market), (''tickInterval'', tick_interval)])
       PROTECTION_PUB"

subsection \<open>\<^verbatim>\<open>list_markets_by_currency\<close>\<close>

text \<open>
  Subscripting, iterating and \<^verbatim>\<open>.lower()\<close> on a decoded JSON value, with the exception
  each raises on a value of the wrong shape. A decoded object holds each key once.
\<close>

definition py_repr_key :: "string \<Rightarrow> string" where
  "py_repr_key k = [CHR 0x27] @ k @ [CHR 0x27]"

fun py_getitem :: "json \<Rightarrow> string \<Rightarrow> py_exn + json" where
  "py_getitem (JObj kvs) k =
     (case map_of kvs k of
        None \<Rightarrow> Inl (PyExn KeyError (py_repr_key k))
      | Some v \<Rightarrow> Inr v)"
| "py_getitem (JList xs) k =
     Inl (PyExn TypeError ''list indices must be integers or slices, not str'')"
| "py_getitem (JStr s) k = Inl (PyExn TypeError ''string indices must be integers'')"
| "py_getitem v k = Inl (PyExn TypeError ''object is not subscriptable'')"

fun py_iter :: "json \<Rightarrow> py_exn + json list" where
  "py_iter (JList xs) = Inr xs"
| "py_iter (JObj kvs) = Inr (map (\<lambda>kv. JStr (fst kv)) kvs)"
| "py_iter (JStr s) = Inr (map (\<lambda>c. JStr [c]) s)"
| "py_iter v = Inl (PyExn TypeError ''object is not iterable'')"

fun py_lower :: "runtime \<Rightarrow> json \<Rightarrow> py_exn + string" where
  "py_lower rt (JStr s) = Inr (str_lower rt s)"
| "py_lower rt v = Inl (PyExn AttributeError ''object has no attribute lower'')"

text \<open>
  \<^verbatim>\<open>lowered.endswith(currency.lower())\<close> for a string \<open>lowered\<close>: \<^verbatim>\<open>bytes\<close> has \<^verbatim>\<open>lower\<close> too, but
  \<^verbatim>\<open>str.endswith\<close> refuses a \<^verbatim>\<open>bytes\<close> argument.
\<close>

fun endswith_lower :: "runtime \<Rightarrow> string \<Rightarrow> pyval \<Rightarrow> py_exn + bool" where
  "endswith_lower rt lowered (PStr c) = Inr (endswith lowered (str_lower rt c))"
| "endswith_lower rt lowered (PBytes c) =
     Inl (PyExn TypeError ''endswith first arg must be str or a tuple of str, not bytes'')"
| "endswith_lower rt lowered v = Inl (PyExn AttributeError ''object has no attribute lower'')"

text \<open>
  The list comprehension: for each market in turn the condition is evaluated, then, when
  it holds, the element expression \<^verbatim>\<open>market['MarketName']\<close>.
\<close>

fun markets_ending_with :: "runtime \<Rightarrow> pyval \<Rightarrow> json list \<Rightarrow> py_exn + json list" where
  "markets_ending_with rt currency [] = Inr []"
| "markets_ending_with rt currency (market # rest) =
     (case py_getitem market ''MarketName'' of
        Inl e \<Rightarrow> Inl e
      | Inr name \<Rightarrow>
          (case py_lower rt name of
             Inl e \<Rightarrow> Inl e
           | Inr lowered \<Rightarrow>
               (case endswith_lower rt lowered currency of
                  Inl e \<Rightarrow> Inl e
                | Inr matches \<Rightarrow>
                    if matches
                    then (case markets_ending_with rt currency rest of
                            Inl e \<Rightarrow> Inl e
                          | Inr names \<Rightarrow> Inr (name # names))
                    else markets_ending_with rt currency rest)))"

definition list_markets_by_currency ::
  "runtime \<Rightarrow> client \<Rightarrow> world \<Rightarrow> pyval \<Rightarrow> (json list) outcome" where
  "list_markets_by_currency rt self w currency =
     (case get_markets rt self w of
        (Inl e, self1, w1) \<Rightarrow> (Inl e, self1, w1)
      | (Inr response, self1, w1) \<Rightarrow>
          (case py_getitem response ''result'' of
             Inl e \<Rightarrow> (Inl e, self1, w1)
           | Inr result \<Rightarrow>
               (case py_iter result of
                  Inl e \<Rightarrow> (Inl e, self1, w1)
                | Inr markets \<Rightarrow> (markets_ending_with rt currency markets, self1, w1))))"

subsection \<open>\<^verbatim>\<open>decrypt\<close>\<close>

text \<open>
  The \<^verbatim>\<open>try\<close> block of \<^verbatim>\<open>decrypt\<close>: each credential that is a \<^verbatim>\<open>str\<close> is replaced by its
  \<^verbatim>\<open>ast.literal_eval\<close>; an \<^verbatim>\<open>Exception\<close> ends the block silently, keeping what was
  assigned before it; any other exception leaves the method.
\<close>

definition decrypt_literals :: "runtime \<Rightarrow> client \<Rightarrow> py_exn option \<times> client" where
  "decrypt_literals rt self =
     (let step2 = (\<lambda>c. case api_secret c of
                          PStr s \<Rightarrow>
                            (case literal_eval rt s of
                               Inl e \<Rightarrow> if is_Exception e then (None, c) else (Some e, c)
                             | Inr v \<Rightarrow> (None, c\<lparr>api_secret := v\<rparr>))
                        | _ \<Rightarrow> (None, c))
      in case api_key self of
           PStr k \<Rightarrow>
             (case literal_eval rt k of
                Inl e \<Rightarrow> if is_Exception e then (None, self) else (Some e, self)
              | Inr v \<Rightarrow> step2 (self\<lparr>api_key := v\<rparr>))
         | _ \<Rightarrow> step2 self)"

definition pycrypto_missing :: py_exn where
  "pycrypto_missing =
     PyExn ImportError ([CHR 0x22] @ ''pycrypto'' @ [CHR 0x22] @ '' module has to be installed'')"

definition decrypt :: "runtime \<Rightarrow> client \<Rightarrow> (py_exn + unit) \<times> client" where
  "decrypt rt self =
     (if encrypted rt then
        (case aes_new rt (getpass rt) of
           Inl e \<Rightarrow> (Inl e, self)
         | Inr cipher \<Rightarrow>
             (case decrypt_literals rt self of
                (Some e, self1) \<Rightarrow> (Inl e, self1)
              | (None, self1) \<Rightarrow>
                  (case aes_decrypt rt cipher (api_key self1) of
                     Inl e \<Rightarrow> (Inl e, self1)
                   | Inr key_bytes \<Rightarrow>
                       (case bytes_decode rt key_bytes of
                          Inl e \<Rightarrow> (Inl e, self1)
                        | Inr k \<Rightarrow>
                            (let self2 = self1\<lparr>api_key := PStr k\<rparr>
                             in case aes_decrypt rt cipher (api_secret self2) of
                                  Inl e \<Rightarrow> (Inl e, self2)
                                | Inr secret_bytes \<Rightarrow>
                                    (case bytes_decode rt secret_bytes of
                                       Inl e \<Rightarrow> (Inl e, self2)
                                     | Inr s \<Rightarrow> (Inr (), self2\<lparr>api_secret := PStr s\<rparr>)))))))
      else (Inl pycrypto_missing, self))"

section \<open>Clients in use and a concrete runtime\<close>

fun is_str :: "pyval \<Rightarrow> bool" where
  "is_str (PStr s) = True"
| "is_str v = False"

text \<open>
  What \<^verbatim>\<open>__init__\<close> establishes and no request changes: the URL template and
  credentials that are strings. Only \<open>last_call\<close> differs between such clients.
\<close>

definition constructed :: "client \<Rightarrow> bool" where
  "constructed self =
     (base_url self = ''https://api.bittrex.com/v3{path}'' \<and>
      is_str (api_key self) \<and> is_str (api_secret self))"

text \<open>The four authentication headers.\<close>

definition auth_header_names :: "string list" where
  "auth_header_names = [''Api-Key'', ''Api-Timestamp'', ''Api-Content-Hash'', ''Api-Signature'']"

definition carries_auth_headers :: "request \<Rightarrow> bool" where
  "carries_auth_headers req = list_all (\<lambda>n. n \<in> fst ` set (headers req)) auth_header_names"

text \<open>
  The signature as the specification words it: the content hash is the digest of the
  body, of the empty byte string for an absent or empty body; the text signed is
  timestamp, URL, method and content hash joined with nothing between them.
\<close>

definition spec_content_hash :: "runtime \<Rightarrow> string option \<Rightarrow> string" where
  "spec_content_hash rt body = sha512_hexdigest rt (case body of None \<Rightarrow> [] | Some b \<Rightarrow> b)"

definition spec_pre_sign :: "string \<Rightarrow> string \<Rightarrow> string \<Rightarrow> string \<Rightarrow> string" where
  "spec_pre_sign timestamp request_url method content_hash =
     concat [timestamp, request_url, method, content_hash]"

definition spec_signature :: "runtime \<Rightarrow> string \<Rightarrow> string \<Rightarrow> string \<Rightarrow> string option \<Rightarrow> string" where
  "spec_signature rt secret timestamp request_url body =
     hmac_sha512_hexdigest rt secret
       (spec_pre_sign timestamp request_url ''GET'' (spec_content_hash rt body))"

text \<open>The request \<^verbatim>\<open>dispatch\<close> makes from a key, a secret, a URL, a timestamp and a body.\<close>

definition signed_request ::
  "runtime \<Rightarrow> string \<Rightarrow> string \<Rightarrow> string \<Rightarrow> string \<Rightarrow> string option \<Rightarrow> request" where
  "signed_request rt key secret request_url timestamp body =
     \<lparr>meth = ''GET'', url = request_url,
      headers = [(''Api-Key'', HBytes key),
                 (''Api-Timestamp'', HStr timestamp),
                 (''Api-Content-Hash'', HStr (spec_content_hash rt body)),
                 (''Api-Signature'', HStr (spec_signature rt secret timestamp request_url body))],
      timeout = 10\<rparr>"

text \<open>What the \<^verbatim>\<open>try\<close> statement of \<^verbatim>\<open>_api_query\<close> makes of the outcome of the exchange.\<close>

definition caught :: "py_exn + json \<Rightarrow> py_exn + json" where
  "caught r =
     (case r of
        Inr response \<Rightarrow> Inr response
      | Inl e \<Rightarrow> if is_Exception e then Inr (no_api_response e) else Inl e)"

text \<open>The name of a market as \<^verbatim>\<open>market['MarketName']\<close> gives it, when it is a string.\<close>

fun market_name :: "json \<Rightarrow> string option" where
  "market_name (JObj kvs) = (case map_of kvs ''MarketName'' of Some (JStr s) \<Rightarrow> Some s | _ \<Rightarrow> None)"
| "market_name v = None"

text \<open>
  A runtime for evaluating the module on concrete inputs. The digests are left symbolic
  (\<^verbatim>\<open>sha512(...)\<close>, \<^verbatim>\<open>hmac(key,message)\<close>). An eighth of a second passes at every clock
  event, so that every time is a multiple of 1/8 and the float operations on the times
  are exact, as the machine's are on such values. \<^verbatim>\<open>str.lower\<close> is the one of ASCII text.
  pycrypto is installed: \<^verbatim>\<open>literal_eval\<close> reads the text of a \<^verbatim>\<open>bytes\<close> literal, and the
  cipher strips a leading \<^verbatim>\<open>enc:\<close> from \<^verbatim>\<open>bytes\<close>. The HTTP exchange is the parameter.
\<close>

definition demo_literal_eval :: "string \<Rightarrow> py_exn + pyval" where
  "demo_literal_eval s =
     (if 3 \<le> length s \<and> take 2 s = [CHR ''b'', CHR 0x27] \<and> last s = CHR 0x27
      then Inr (PBytes (butlast (drop 2 s)))
      else Inl (PyExn ValueError ''malformed node or string''))"

definition demo_decrypt :: "pyval \<Rightarrow> py_exn + string" where
  "demo_decrypt v =
     (case v of
        PBytes s \<Rightarrow> if take 4 s = ''enc:'' then Inr (drop 4 s) else Inl (PyExn ValueError ''bad input'')
      | _ \<Rightarrow> Inl (PyExn TypeError ''bad input''))"

definition demo_runtime :: "(nat \<Rightarrow> request \<Rightarrow> py_exn + json) \<Rightarrow> runtime" where
  "demo_runtime http =
     \<lparr>sha512_hexdigest = (\<lambda>b. ''sha512('' @ b @ '')''),
      hmac_sha512_hexdigest = (\<lambda>k m. ''hmac('' @ k @ '','' @ m @ '')''),
      py_repr = (\<lambda>v. ''<repr>''),
      float_mul = (\<lambda>x y. x * y),
      float_sub = (\<lambda>x y. x - y),
      float_div = (\<lambda>x y. x / y),
      str_lower = lower,
      elapse = (\<lambda>n. 1 / 8),
      requests_get_json = http,
      encrypted = True,
      getpass = ''password'',
      aes_new = (\<lambda>pw. Inr pw),
      aes_decrypt = (\<lambda>cipher v. demo_decrypt v),
      literal_eval = demo_literal_eval,
      bytes_decode = (\<lambda>b. Inr b)\<rparr>"

definition http_timeout :: "nat \<Rightarrow> request \<Rightarrow> py_exn + json" where
  "http_timeout n req = Inl (PyExn Timeout ''Read timed out. (read timeout=10)'')"

definition fixture_markets :: json where
  "fixture_markets =
     JObj [(''success'', JBool True), (''message'', JStr []),
           (''result'', JList [JObj [(''MarketName'', JStr ''BTC-LTC'')],
                               JObj [(''MarketName'', JStr ''ETH-BTC'')],
                               JObj [(''MarketName'', JStr ''USDT-LTC'')]])]"

definition http_markets :: "nat \<Rightarrow> request \<Rightarrow> py_exn + json" where
  "http_markets n req = Inr fixture_markets"

definition demo_world :: world where
  "demo_world = \<lparr>clock = 1730000000, tick = 0, sleeps = [], sent = []\<rparr>"

definition demo_client :: client where
  "demo_client =
     \<lparr>api_key = PStr ''key'', api_secret = PStr ''secret'', call_rate = 1 / 2,
      last_call = None, base_url = ''https://api.bittrex.com/v3{path}''\<rparr>"

text \<open>
  A client whose credentials are the texts \<^verbatim>\<open>encrypt\<close> stores: \<^verbatim>\<open>str\<close> of the \<^verbatim>\<open>bytes\<close> the
  cipher returned.
\<close>

definition demo_encrypted_client :: client where
  "demo_encrypted_client =
     \<lparr>api_key = PStr ([CHR ''b'', CHR 0x27] @ ''enc:key'' @ [CHR 0x27]),
      api_secret = PStr ([CHR ''b'', CHR 0x27] @ ''enc:secret'' @ [CHR 0x27]),
      call_rate = 1, last_call = None, base_url = ''https://api.bittrex.com/v3{path}''\<rparr>"

text \<open>The credentials of a client.\<close>

definition credentials :: "client \<Rightarrow> pyval \<times> pyval" where
  "credentials self = (api_key self, api_secret self)"

section \<open>Facts about the concrete client\<close>

lemma Bittrex_init_demo:
  "Bittrex_init (demo_runtime http) (PStr ''key'') (PStr ''secret'') 2 = Inr demo_client"
  by (simp add: Bittrex_init_def demo_client_def demo_runtime_def py_format_def API_URI_def
      BASE_PATH_def)

lemma constructed_demo: "constructed demo_client"
  by (simp add: constructed_def demo_client_def)

section \<open>C1: the request signature\<close>

text \<open>
  Claim C1. For every secret, timestamp, URL and body, \<^verbatim>\<open>dispatch\<close> calls the HTTP library
  with exactly these headers: the API key (as bytes), the timestamp it was given, the
  content hash (the hex SHA-512 of the body, of the empty byte string when the body is
  \<^verbatim>\<open>None\<close> or empty) and the signature, the hex HMAC-SHA512 keyed with the secret over
  timestamp + URL + \<^verbatim>\<open>GET\<close> + content hash, concatenated with no separator.
\<close>

theorem dispatch_signs_as_specified:
  assumes "api_key self = PStr key" and "api_secret self = PStr secret"
  shows "dispatch rt self w request_url timestamp body =
           (let req = \<lparr>meth = ''GET'', url = request_url,
                       headers = [(''Api-Key'', HBytes key),
                                  (''Api-Timestamp'', HStr timestamp),
                                  (''Api-Content-Hash'', HStr (spec_content_hash rt body)),
                                  (''Api-Signature'',
                                     HStr (spec_signature rt secret timestamp request_url body))],
                       timeout = 10\<rparr>
            in (requests_get_json rt (length (sent w)) req, w\<lparr>sent := sent w @ [req]\<rparr>))"
proof -
  have body_eq: "(case body of None \<Rightarrow> [] | Some b \<Rightarrow> if b \<noteq> [] then b else [])
                   = (case body of None \<Rightarrow> [] | Some b \<Rightarrow> b)"
    by (cases body) auto
  show ?thesis
    unfolding dispatch_def body_eq
    by (simp add: assms spec_content_hash_def spec_signature_def spec_pre_sign_def Let_def)
qed

theorem dispatch_signs_as_specified_witness:
  "api_key demo_client = PStr ''key'' \<and> api_secret demo_client = PStr ''secret'' \<and>
   map (\<lambda>r. headers r)
     (sent (snd (dispatch (demo_runtime http_markets) demo_client demo_world
                   ''https://api.bittrex.com/v3/markets'' ''1730000000100'' None))) =
     [[(''Api-Key'', HBytes ''key''),
       (''Api-Timestamp'', HStr ''1730000000100''),
       (''Api-Content-Hash'', HStr ''sha512()''),
       (''Api-Signature'',
          HStr ''hmac(secret,1730000000100https://api.bittrex.com/v3/marketsGETsha512())'')]]"
proof -
  have k: "api_key demo_client = PStr ''key''" and s: "api_secret demo_client = PStr ''secret''"
    by (simp_all add: demo_client_def)
  show ?thesis
    using k s dispatch_signs_as_specified [OF k s, of "demo_runtime http_markets" demo_world
        "''https://api.bittrex.com/v3/markets''" "''1730000000100''" None]
    by (simp add: Let_def demo_world_def demo_runtime_def spec_content_hash_def
        spec_signature_def spec_pre_sign_def)
qed

section \<open>\<^verbatim>\<open>_api_query\<close> on a client in use; C2: transport failures\<close>

lemma format_base_url:
  "py_format ''https://api.bittrex.com/v3{path}'' [(''path'', p)] =
     Inr (''https://api.bittrex.com/v3'' @ p)"
  by (simp add: py_format_def)

lemma is_str_iff: "is_str v \<longleftrightarrow> (\<exists>s. v = PStr s)"
  by (cases v) simp_all

lemma Bittrex_init_constructed:
  "Bittrex_init rt key secret cps = Inr self \<Longrightarrow> constructed self"
  by (auto simp: Bittrex_init_def constructed_def py_format_def API_URI_def BASE_PATH_def Let_def
      split: if_splits)

lemma Bittrex_init_fields:
  "Bittrex_init rt key secret cps = Inr self \<Longrightarrow>
     cps \<noteq> 0 \<and> call_rate self = float_div rt 1 cps \<and> last_call self = None"
  by (auto simp: Bittrex_init_def py_format_def API_URI_def BASE_PATH_def Let_def
      split: if_splits)

lemma wait_keeps [simp]:
  "api_key (fst (wait rt self w)) = api_key self"
  "api_secret (fst (wait rt self w)) = api_secret self"
  "base_url (fst (wait rt self w)) = base_url self"
  "call_rate (fst (wait rt self w)) = call_rate self"
  "sent (snd (wait rt self w)) = sent w"
  by (simp_all add: wait_def time_time_def time_sleep_def Let_def split: option.splits)

lemma time_time_sent [simp]: "sent (snd (time_time rt w)) = sent w"
  by (simp add: time_time_def Let_def)

lemma dispatch_str:
  "api_key self = PStr key \<Longrightarrow> api_secret self = PStr secret \<Longrightarrow>
   dispatch rt self w u ts body =
     (requests_get_json rt (length (sent w)) (signed_request rt key secret u ts body),
      w\<lparr>sent := sent w @ [signed_request rt key secret u ts body]\<rparr>)"
  by (cases body)
     (simp_all add: dispatch_def signed_request_def spec_content_hash_def spec_signature_def
       spec_pre_sign_def Let_def)

lemma api_query_constructed:
  assumes "base_url self = ''https://api.bittrex.com/v3{path}''"
    and "api_key self = PStr key" and "api_secret self = PStr secret"
  shows "api_query rt self w protection path_dict options body =
           (let req = signed_request rt key secret
                        (''https://api.bittrex.com/v3'' @ py_str rt path_dict @
                         urlencode rt (case options of None \<Rightarrow> [] | Some os \<Rightarrow> os))
                        (str_int (py_int (float_mul rt (fst (time_time rt w)) 1000))) body;
                sw = wait rt self (snd (time_time rt w))
            in (caught (requests_get_json rt (length (sent w)) req), fst sw,
                (snd sw)\<lparr>sent := sent w @ [req]\<rparr>))"
proof -
  have opts: "(case options of None \<Rightarrow> [] | Some os \<Rightarrow> if os = [] then [] else os)
                = (case options of None \<Rightarrow> [] | Some os \<Rightarrow> os)"
    by (cases options) auto
  have d: "dispatch rt (fst (wait rt self w')) (snd (wait rt self w')) u ts body =
             (requests_get_json rt (length (sent w')) (signed_request rt key secret u ts body),
              (snd (wait rt self w'))\<lparr>sent := sent w' @ [signed_request rt key secret u ts body]\<rparr>)"
    for w' u ts
    using dispatch_str [of "fst (wait rt self w')" key secret rt "snd (wait rt self w')" u ts body]
    by (simp add: assms)
  show ?thesis
    unfolding api_query_def opts
    by (simp add: assms(1) format_base_url Let_def case_prod_beta d caught_def
        split: sum.splits)
qed


lemma hex_digit_not_qmark: "n < 16 \<Longrightarrow> hex_digit n \<noteq> CHR ''?''"
proof -
  assume "n < 16"
  then have "hex_digit n \<in> set ''0123456789ABCDEF''"
    unfolding hex_digit_def by (intro nth_mem) simp
  then show ?thesis by auto
qed

lemma quote_char_no_qmark: "CHR ''?'' \<notin> set (quote_char c)"
proof -
  have d: "(of_char c :: nat) div 16 < 16"
    using nat_of_char_less_256 [of c] by (simp add: less_mult_imp_div_less)
  have m: "(of_char c :: nat) mod 16 < 16" by simp
  show ?thesis
    using hex_digit_not_qmark [OF d] hex_digit_not_qmark [OF m]
    by (auto simp: quote_char_def always_safe_def)
qed

lemma quote_plus_no_qmark: "CHR ''?'' \<notin> set (quote_plus s)"
  by (induction s) (simp_all add: quote_plus_def quote_char_no_qmark)

lemma join_amp_no_qmark:
  "\<forall>x \<in> set xs. CHR ''?'' \<notin> set x \<Longrightarrow> CHR ''?'' \<notin> set (join_amp xs)"
  by (induction xs rule: join_amp.induct) auto

lemma urlencode_no_qmark: "CHR ''?'' \<notin> set (urlencode rt query)"
  unfolding urlencode_def
  by (rule join_amp_no_qmark) (auto simp: quote_plus_no_qmark)

lemma urlencode_Nil: "urlencode rt [] = []"
  by (simp add: urlencode_def)

lemma constructed_fields:
  assumes "constructed self"
  obtains key secret where "base_url self = ''https://api.bittrex.com/v3{path}''"
    and "api_key self = PStr key" and "api_secret self = PStr secret"
  using assms by (auto simp: constructed_def is_str_iff)

text \<open>
  Claim C2. When the HTTP exchange raises an \<^verbatim>\<open>Exception\<close> (a timeout, a connection error,
  a body that is not JSON), \<^verbatim>\<open>_api_query\<close> raises nothing: it returns the dictionary with
  \<^verbatim>\<open>success\<close> false, \<^verbatim>\<open>message\<close> \<^verbatim>\<open>NO_API_RESPONSE\<close>, \<^verbatim>\<open>result\<close> \<^verbatim>\<open>None\<close> and \<^verbatim>\<open>error\<close> the text of
  the exception.
\<close>

theorem transport_failure_is_returned:
  assumes "constructed self" and "is_Exception e"
    and "\<forall>req. requests_get_json rt (length (sent w)) req = Inl e"
  shows "fst (api_query rt self w protection path_dict options body) = Inr (no_api_response e)"
proof -
  from assms(1) obtain key secret where f: "base_url self = ''https://api.bittrex.com/v3{path}''"
    "api_key self = PStr key" "api_secret self = PStr secret"
    by (rule constructed_fields)
  show ?thesis
    by (simp add: api_query_constructed [OF f] Let_def assms(2,3) caught_def)
qed

theorem transport_failure_is_returned_witness:
  "fst (get_markets (demo_runtime http_timeout) demo_client demo_world) =
     Inr (JObj [(''success'', JBool False), (''message'', JStr ''NO_API_RESPONSE''),
                (''result'', JNull), (''error'', JStr ''Read timed out. (read timeout=10)'')])"
proof -
  have c: "constructed demo_client" by (simp add: constructed_def demo_client_def)
  have e: "is_Exception (PyExn Timeout ''Read timed out. (read timeout=10)'')" by simp
  have t: "\<forall>req. requests_get_json (demo_runtime http_timeout) (length (sent demo_world)) req =
             Inl (PyExn Timeout ''Read timed out. (read timeout=10)'')"
    by (simp add: demo_runtime_def http_timeout_def)
  show ?thesis
    using transport_failure_is_returned [OF c e t, of PNone "PStr ''/markets''" None None]
    by (simp add: get_markets_def no_api_response_def)
qed

section \<open>C3: the operations that look up \<^verbatim>\<open>API_V1_1\<close> or \<^verbatim>\<open>API_V2_0\<close>\<close>

lemma load_API_V1_1: "load_global rt ''API_V1_1'' = Inl (name_error ''API_V1_1'')"
  by (simp add: load_global_def module_globals_def)

lemma load_API_V2_0: "load_global rt ''API_V2_0'' = Inl (name_error ''API_V2_0'')"
  by (simp add: load_global_def module_globals_def)

lemma with_path_dict_V1_1:
  "with_path_dict rt self w ((''API_V1_1'', v) # kvs) options protection =
     (Inl (name_error ''API_V1_1''), self, w)"
  by (simp add: with_path_dict_def load_API_V1_1)

lemma with_path_dict_V2_0:
  "with_path_dict rt self w ((''API_V2_0'', v) # kvs) options protection =
     (Inl (name_error ''API_V2_0''), self, w)"
  by (simp add: with_path_dict_def load_API_V2_0)

text \<open>
  Claim C3. The twenty-one operations whose path dictionary is keyed by \<^verbatim>\<open>API_V1_1\<close> or
  \<^verbatim>\<open>API_V2_0\<close> (names the module never defines) raise \<^verbatim>\<open>NameError\<close> when called: the dictionary
  display fails at its first key, so \<^verbatim>\<open>_api_query\<close> is never entered. The client and the world
  are returned as they were: no clock read, no sleep, no request.
\<close>

theorem versioned_operations_raise_NameError:
  "(buy_limit rt self w market quantity rate = (Inl (name_error ''API_V1_1''), self, w)) \<and>
   (sell_limit rt self w market quantity rate = (Inl (name_error ''API_V1_1''), self, w)) \<and>
   (cancel rt self w uuid = (Inl (name_error ''API_V1_1''), self, w)) \<and>
   (get_open_orders rt self w market = (Inl (name_error ''API_V1_1''), self, w)) \<and>
   (get_balances rt self w = (Inl (name_error ''API_V1_1''), self, w)) \<and>
   (get_balance rt self w currency = (Inl (name_error ''API_V1_1''), self, w)) \<and>
   (get_deposit_address rt self w currency = (Inl (name_error ''API_V1_1''), self, w)) \<and>
   (withdraw rt self w currency quantity address paymentid = (Inl (name_error ''API_V1_1''), self, w)) \<and>
   (get_order_history rt self w market = (Inl (name_error ''API_V1_1''), self, w)) \<and>
   (get_order rt self w uuid = (Inl (name_error ''API_V1_1''), self, w)) \<and>
   (get_withdrawal_history rt self w currency = (Inl (name_error ''API_V1_1''), self, w)) \<and>
   (get_deposit_history rt self w currency = (Inl (name_error ''API_V1_1''), self, w)) \<and>
   (get_wallet_health rt self w = (Inl (name_error ''API_V2_0''), self, w)) \<and>
   (get_balance_distribution rt self w = (Inl (name_error ''API_V2_0''), self, w)) \<and>
   (get_pending_withdrawals rt self w currency = (Inl (name_error ''API_V2_0''), self, w)) \<and>
   (get_pending_deposits rt self w currency = (Inl (name_error ''API_V2_0''), self, w)) \<and>
   (generate_deposit_address rt self w currency = (Inl (name_error ''API_V2_0''), self, w)) \<and>
   (trade_sell rt self w market order_type quantity rate time_in_effect condition_type target = (Inl (name_error ''API_V2_0''), self, w)) \<and>
   (trade_buy rt self w market order_type quantity rate time_in_effect condition_type target = (Inl (name_error ''API_V2_0''), self, w)) \<and>
   (get_candles rt self w market tick_interval = (Inl (name_error ''API_V2_0''), self, w)) \<and>
   (get_latest_candle rt self w market tick_interval = (Inl (name_error ''API_V2_0''), self, w))"
  unfolding buy_limit_def sell_limit_def cancel_def get_open_orders_def get_balances_def
    get_balance_def get_deposit_address_def withdraw_def get_order_history_def get_order_def
    get_withdrawal_history_def get_deposit_history_def get_wallet_health_def
    get_balance_distribution_def get_pending_withdrawals_def get_pending_deposits_def
    generate_deposit_address_def trade_sell_def trade_buy_def get_candles_def
    get_latest_candle_def
  by (simp only: with_path_dict_V1_1 with_path_dict_V2_0 Let_def if_cancel simp_thms)


section \<open>C4: the authentication headers do not depend on \<^verbatim>\<open>protection\<close>\<close>

text \<open>
  Claim C4, as stated, fails: the authentication headers are not limited to the operations
  that require authentication. \<^verbatim>\<open>get_markets\<close>, a public operation (\<^verbatim>\<open>PROTECTION_PUB\<close>), sends
  one request, and that request carries \<^verbatim>\<open>Api-Key\<close>, \<^verbatim>\<open>Api-Timestamp\<close>, \<^verbatim>\<open>Api-Content-Hash\<close> and
  \<^verbatim>\<open>Api-Signature\<close>.
\<close>

theorem public_request_carries_auth_headers:
  "length (sent (snd (snd (get_markets (demo_runtime http_markets) demo_client demo_world)))) = 1 \<and>
   carries_auth_headers
     (last (sent (snd (snd (get_markets (demo_runtime http_markets) demo_client demo_world))))) \<and>
   carries_auth_headers
     (last (sent (snd (snd (api_query (demo_runtime http_markets) demo_client demo_world
                              (PStr PROTECTION_PUB) (PStr ''/markets'') None None)))))"
proof -
  have f: "base_url demo_client = ''https://api.bittrex.com/v3{path}''"
    "api_key demo_client = PStr ''key''" "api_secret demo_client = PStr ''secret''"
    by (simp_all add: demo_client_def)
  show ?thesis
    by (simp add: get_markets_def api_query_constructed [OF f] Let_def demo_world_def
        carries_auth_headers_def auth_header_names_def signed_request_def)
qed

text \<open>
  Claim C4, amended. \<^verbatim>\<open>_api_query\<close> never reads its \<^verbatim>\<open>protection\<close> argument and \<^verbatim>\<open>dispatch\<close> has
  no branch on it: whatever the value of \<^verbatim>\<open>protection\<close>, a constructed client sends exactly one
  request per query and that request carries the four authentication headers.
\<close>

theorem every_request_carries_auth_headers:
  assumes "constructed self"
  shows "length (sent (snd (snd (api_query rt self w protection path_dict options body)))) =
           Suc (length (sent w)) \<and>
         carries_auth_headers
           (last (sent (snd (snd (api_query rt self w protection path_dict options body)))))"
proof -
  from assms obtain key secret where f: "base_url self = ''https://api.bittrex.com/v3{path}''"
    "api_key self = PStr key" "api_secret self = PStr secret"
    by (rule constructed_fields)
  show ?thesis
    by (simp add: api_query_constructed [OF f] Let_def carries_auth_headers_def
        auth_header_names_def signed_request_def)
qed

theorem every_request_carries_auth_headers_witness:
  "constructed demo_client \<and>
   map (\<lambda>r. map fst (headers r))
     (sent (snd (snd (api_query (demo_runtime http_markets) demo_client demo_world
                        (PStr PROTECTION_PRV) (PStr ''/balances'') None None)))) =
     [[''Api-Key'', ''Api-Timestamp'', ''Api-Content-Hash'', ''Api-Signature'']] \<and>
   carries_auth_headers
     (last (sent (snd (snd (api_query (demo_runtime http_markets) demo_client demo_world
                        (PStr PROTECTION_PRV) (PStr ''/balances'') None None)))))"
proof -
  have c: "constructed demo_client" by (simp add: constructed_def demo_client_def)
  have f: "base_url demo_client = ''https://api.bittrex.com/v3{path}''"
    "api_key demo_client = PStr ''key''" "api_secret demo_client = PStr ''secret''"
    by (simp_all add: demo_client_def)
  have "map (\<lambda>r. map fst (headers r))
     (sent (snd (snd (api_query (demo_runtime http_markets) demo_client demo_world
                        (PStr PROTECTION_PRV) (PStr ''/balances'') None None)))) =
     [[''Api-Key'', ''Api-Timestamp'', ''Api-Content-Hash'', ''Api-Signature'']]"
    by (simp add: api_query_constructed [OF f] Let_def demo_world_def signed_request_def)
  then show ?thesis
    using c every_request_carries_auth_headers [OF c, of "demo_runtime http_markets" demo_world
        "PStr PROTECTION_PRV" "PStr ''/balances''" None None]
    by simp
qed

section \<open>C10: the query string is appended with no separator\<close>

text \<open>
  Claim C10. The URL of the request is the base URL with the path, followed directly by the
  URL-encoded options: nothing stands between them, and the encoding itself never contains a
  question mark. With options \<^verbatim>\<open>None\<close> or empty, the URL is exactly the base URL with the path.
\<close>

theorem query_string_appended_without_separator:
  assumes "constructed self"
  shows "\<exists>req. sent (snd (snd (api_query rt self w protection path_dict options body))) =
                 sent w @ [req] \<and>
               (case options of
                  None \<Rightarrow> url req = ''https://api.bittrex.com/v3'' @ py_str rt path_dict
                | Some os \<Rightarrow>
                    if os = [] then url req = ''https://api.bittrex.com/v3'' @ py_str rt path_dict
                    else url req = (''https://api.bittrex.com/v3'' @ py_str rt path_dict) @
                                   urlencode rt os \<and>
                         CHR ''?'' \<notin> set (urlencode rt os))"
proof -
  from assms obtain key secret where f: "base_url self = ''https://api.bittrex.com/v3{path}''"
    "api_key self = PStr key" "api_secret self = PStr secret"
    by (rule constructed_fields)
  show ?thesis
    by (cases options)
       (simp_all add: api_query_constructed [OF f] Let_def signed_request_def urlencode_Nil
         urlencode_no_qmark)
qed

theorem query_string_appended_without_separator_witness:
  "constructed demo_client \<and>
   map url
     (sent (snd (snd (api_query (demo_runtime http_markets) demo_client demo_world PNone
                        (PStr ''/markets'') (Some [(''market'', PStr ''BTC-LTC''), (''depth'', PInt 5)])
                        None)))) =
     [''https://api.bittrex.com/v3/marketsmarket=BTC-LTC&depth=5'']"
proof -
  have c: "constructed demo_client" by (simp add: constructed_def demo_client_def)
  have u: "urlencode (demo_runtime http_markets) [(''market'', PStr ''BTC-LTC''), (''depth'', PInt 5)]
             = ''market=BTC-LTC&depth=5''"
    by (simp add: urlencode_def quote_plus_def quote_char_def always_safe_def str_int_def
        str_nat.simps)
  have "\<exists>req. sent (snd (snd (api_query (demo_runtime http_markets) demo_client demo_world PNone
                        (PStr ''/markets'') (Some [(''market'', PStr ''BTC-LTC''), (''depth'', PInt 5)])
                        None))) = sent demo_world @ [req] \<and>
          url req = ''https://api.bittrex.com/v3/marketsmarket=BTC-LTC&depth=5''"
    using query_string_appended_without_separator [OF c, of "demo_runtime http_markets" demo_world
      PNone "PStr ''/markets''" "Some [(''market'', PStr ''BTC-LTC''), (''depth'', PInt 5)]" None]
    by (simp add: u)
  then show ?thesis
    using c by (auto simp: demo_world_def)
qed

section \<open>C8: the request of \<^verbatim>\<open>_api_query\<close>\<close>

text \<open>
  Claim C8. For a constructed client and a path string, \<^verbatim>\<open>_api_query\<close> sends one request: its URL
  is \<^verbatim>\<open>https://api.bittrex.com\<close>, then \<^verbatim>\<open>/v3\<close>, then the path, then the URL-encoded options. Its
  \<^verbatim>\<open>Api-Timestamp\<close> is the nonce \<^verbatim>\<open>str(int(time.time() * 1000))\<close>: the clock reading (the first
  clock event of the call) times 1000, the product being the float product as the machine
  rounds it, truncated to an integer and written in decimal. The method is GET and the
  timeout is 10.
\<close>

theorem request_url_nonce_and_timeout:
  assumes "constructed self"
  shows "\<exists>req. sent (snd (snd (api_query rt self w protection (PStr path) options body))) =
                 sent w @ [req] \<and>
               url req = ''https://api.bittrex.com'' @ ''/v3'' @ path @
                         urlencode rt (case options of None \<Rightarrow> [] | Some os \<Rightarrow> os) \<and>
               map_of (headers req) ''Api-Timestamp'' =
                 Some (HStr (str_int (py_int (float_mul rt (clock w + elapse rt (tick w)) 1000)))) \<and>
               meth req = ''GET'' \<and> timeout req = 10"
proof -
  from assms obtain key secret where f: "base_url self = ''https://api.bittrex.com/v3{path}''"
    "api_key self = PStr key" "api_secret self = PStr secret"
    by (rule constructed_fields)
  show ?thesis
    by (simp add: api_query_constructed [OF f] Let_def signed_request_def time_time_def)
qed

theorem request_url_nonce_and_timeout_witness:
  "constructed demo_client \<and>
   map (\<lambda>r. (meth r, url r, map_of (headers r) ''Api-Timestamp'', timeout r))
     (sent (snd (snd (api_query (demo_runtime http_markets) demo_client demo_world PNone
                        (PStr ''/markets/BTC-LTC/orderbook'') (Some [(''depth'', PInt 25)])
                        None)))) =
     [(''GET'', ''https://api.bittrex.com/v3/markets/BTC-LTC/orderbookdepth=25'',
       Some (HStr ''1730000000125''), 10)]"
proof -
  have c: "constructed demo_client" by (simp add: constructed_def demo_client_def)
  have n: "str_int (py_int (float_mul (demo_runtime http_markets)
             (clock demo_world + elapse (demo_runtime http_markets) (tick demo_world)) 1000)) =
           ''1730000000125''"
    by (simp add: demo_world_def demo_runtime_def py_int_def str_int_def str_nat.simps)
  have u: "urlencode (demo_runtime http_markets) [(''depth'', PInt 25)] = ''depth=25''"
    by (simp add: urlencode_def quote_plus_def quote_char_def always_safe_def str_int_def
        str_nat.simps)
  have "\<exists>req. sent (snd (snd (api_query (demo_runtime http_markets) demo_client demo_world PNone
                        (PStr ''/markets/BTC-LTC/orderbook'') (Some [(''depth'', PInt 25)])
                        None))) = sent demo_world @ [req] \<and>
          url req = ''https://api.bittrex.com/v3/markets/BTC-LTC/orderbookdepth=25'' \<and>
          map_of (headers req) ''Api-Timestamp'' = Some (HStr ''1730000000125'') \<and>
          meth req = ''GET'' \<and> timeout req = 10"
    using request_url_nonce_and_timeout [OF c, of "demo_runtime http_markets" demo_world PNone
      "''/markets/BTC-LTC/orderbook''" "Some [(''depth'', PInt 25)]" None]
    by (simp add: n u)
  then show ?thesis
    using c by (auto simp: demo_world_def)
qed

section \<open>C6: \<^verbatim>\<open>list_markets_by_currency\<close>\<close>

lemma market_name_getitem:
  "market_name m = Some n \<Longrightarrow> py_getitem m ''MarketName'' = Inr (JStr n)"
  by (cases m) (auto split: option.splits json.splits)

lemma endswith_iff_suffix: "endswith s t \<longleftrightarrow> (\<exists>p. s = p @ t)"
proof
  assume "endswith s t"
  then have "s = take (length s - length t) s @ t"
    by (metis append_take_drop_id endswith_def)
  then show "\<exists>p. s = p @ t" ..
next
  assume "\<exists>p. s = p @ t"
  then show "endswith s t" by (auto simp: endswith_def)
qed

lemma markets_ending_with_names:
  "\<forall>m \<in> set markets. \<exists>n. market_name m = Some n \<Longrightarrow>
   markets_ending_with rt (PStr currency) markets =
     Inr (map JStr (filter (\<lambda>n. endswith (str_lower rt n) (str_lower rt currency))
                      (List.map_filter market_name markets)))"
proof (induction markets)
  case Nil
  show ?case by (simp add: List.map_filter_simps)
next
  case (Cons m markets)
  from Cons.prems obtain n where n: "market_name m = Some n" by auto
  have ih: "markets_ending_with rt (PStr currency) markets =
     Inr (map JStr (filter (\<lambda>n. endswith (str_lower rt n) (str_lower rt currency))
                      (List.map_filter market_name markets)))"
    using Cons.IH Cons.prems by simp
  show ?case
    by (simp add: market_name_getitem [OF n] n ih List.map_filter_simps)
qed


text \<open>
  Claim C6. When \<^verbatim>\<open>get_markets\<close> returns a response whose \<^verbatim>\<open>result\<close> is a list of markets, each
  with a string \<^verbatim>\<open>MarketName\<close>, \<^verbatim>\<open>list_markets_by_currency(currency)\<close> returns the names, in the
  order of the list, of exactly those markets whose lower-cased name has the lower-cased
  currency as a suffix. On the three markets \<^verbatim>\<open>BTC-LTC\<close>, \<^verbatim>\<open>ETH-BTC\<close>, \<^verbatim>\<open>USDT-LTC\<close> the currency
  \<^verbatim>\<open>LTC\<close> gives \<^verbatim>\<open>BTC-LTC\<close> and \<^verbatim>\<open>USDT-LTC\<close>.
\<close>

theorem list_markets_by_currency_filters:
  assumes "fst (get_markets rt self w) = Inr response"
    and "py_getitem response ''result'' = Inr (JList markets)"
    and "\<forall>m \<in> set markets. \<exists>n. market_name m = Some n"
  shows "fst (list_markets_by_currency rt self w (PStr currency)) =
           Inr (map JStr (filter (\<lambda>n. \<exists>p. str_lower rt n = p @ str_lower rt currency)
                            (List.map_filter market_name markets)))"
proof -
  obtain r self1 w1 where g: "get_markets rt self w = (r, self1, w1)"
    by (cases "get_markets rt self w")
  with assms(1) have r: "r = Inr response" by simp
  show ?thesis
    by (simp add: list_markets_by_currency_def g r assms(2)
        markets_ending_with_names [OF assms(3)] endswith_iff_suffix)
qed

theorem list_markets_by_currency_filters_witness:
  "fst (list_markets_by_currency (demo_runtime http_markets) demo_client demo_world (PStr ''LTC'')) =
     Inr [JStr ''BTC-LTC'', JStr ''USDT-LTC''] \<and>
   fst (list_markets_by_currency (demo_runtime http_markets) demo_client demo_world (PStr ''btc'')) =
     Inr [JStr ''ETH-BTC'']"
proof -
  have f: "base_url demo_client = ''https://api.bittrex.com/v3{path}''"
    "api_key demo_client = PStr ''key''" "api_secret demo_client = PStr ''secret''"
    by (simp_all add: demo_client_def)
  have g: "fst (get_markets (demo_runtime http_markets) demo_client demo_world) =
             Inr fixture_markets"
    by (simp add: get_markets_def api_query_constructed [OF f] Let_def caught_def
        demo_runtime_def http_markets_def)
  have r: "py_getitem fixture_markets ''result'' =
             Inr (JList [JObj [(''MarketName'', JStr ''BTC-LTC'')],
                         JObj [(''MarketName'', JStr ''ETH-BTC'')],
                         JObj [(''MarketName'', JStr ''USDT-LTC'')]])"
    by (simp add: fixture_markets_def)
  have m: "\<forall>m \<in> set [JObj [(''MarketName'', JStr ''BTC-LTC'')],
                         JObj [(''MarketName'', JStr ''ETH-BTC'')],
                         JObj [(''MarketName'', JStr ''USDT-LTC'')]].
             \<exists>n. market_name m = Some n"
    by simp
  have l: "str_lower (demo_runtime http_markets) = lower"
    by (simp add: demo_runtime_def)
  show ?thesis
    using list_markets_by_currency_filters [OF g r m, of "''LTC''"]
      list_markets_by_currency_filters [OF g r m, of "''btc''"]
    by (simp add: l endswith_iff_suffix [symmetric] endswith_def lower_def lower_char_def
        List.map_filter_simps)
qed


section \<open>C7: optional arguments\<close>




section \<open>C9: the credentials\<close>

lemma api_query_credentials:
  "credentials (fst (snd (api_query rt self w protection path_dict options body))) =
     credentials self"
  by (simp add: api_query_def credentials_def Let_def case_prod_beta
      split: sum.splits)

lemma wait_credentials: "credentials (fst (wait rt self w)) = credentials self"
  by (simp add: credentials_def)

lemma with_path_dict_credentials:
  "credentials (fst (snd (with_path_dict rt self w display options protection))) =
     credentials self"
  by (simp add: with_path_dict_def api_query_credentials split: sum.splits)

lemma string_path_credentials:
  "credentials (fst (snd (get_markets rt self w))) = credentials self"
  "credentials (fst (snd (get_currencies rt self w))) = credentials self"
  "credentials (fst (snd (get_market_summaries rt self w))) = credentials self"
  "credentials (fst (snd (get_market_summary rt self w market))) = credentials self"
  "credentials (fst (snd (get_market_ticker rt self w market))) = credentials self"
  by (simp_all add: get_markets_def get_currencies_def get_market_summaries_def
      get_market_summary_def get_market_ticker_def api_query_credentials split: sum.splits)

lemma list_markets_by_currency_client:
  "fst (snd (list_markets_by_currency rt self w currency)) = fst (snd (get_markets rt self w))"
  by (simp add: list_markets_by_currency_def split: prod.splits sum.splits)

lemma decrypt_without_pycrypto:
  "\<not> encrypted rt \<Longrightarrow> decrypt rt self = (Inl pycrypto_missing, self)"
  by (simp add: decrypt_def)


lemma versioned_credentials:
  "credentials (fst (snd (buy_limit rt self w market quantity rate))) = credentials self"
  "credentials (fst (snd (sell_limit rt self w market quantity rate))) = credentials self"
  "credentials (fst (snd (cancel rt self w uuid))) = credentials self"
  "credentials (fst (snd (get_open_orders rt self w market))) = credentials self"
  "credentials (fst (snd (get_balances rt self w))) = credentials self"
  "credentials (fst (snd (get_balance rt self w currency))) = credentials self"
  "credentials (fst (snd (get_deposit_address rt self w currency))) = credentials self"
  "credentials (fst (snd (withdraw rt self w currency quantity address paymentid))) = credentials self"
  "credentials (fst (snd (get_order_history rt self w market))) = credentials self"
  "credentials (fst (snd (get_order rt self w uuid))) = credentials self"
  "credentials (fst (snd (get_withdrawal_history rt self w currency))) = credentials self"
  "credentials (fst (snd (get_deposit_history rt self w currency))) = credentials self"
  "credentials (fst (snd (get_wallet_health rt self w))) = credentials self"
  "credentials (fst (snd (get_balance_distribution rt self w))) = credentials self"
  "credentials (fst (snd (get_pending_withdrawals rt self w currency))) = credentials self"
  "credentials (fst (snd (get_pending_deposits rt self w currency))) = credentials self"
  "credentials (fst (snd (generate_deposit_address rt self w currency))) = credentials self"
  "credentials (fst (snd (trade_sell rt self w market order_type quantity rate time_in_effect condition_type target))) = credentials self"
  "credentials (fst (snd (trade_buy rt self w market order_type quantity rate time_in_effect condition_type target))) = credentials self"
  "credentials (fst (snd (get_candles rt self w market tick_interval))) = credentials self"
  "credentials (fst (snd (get_latest_candle rt self w market tick_interval))) = credentials self"
  unfolding buy_limit_def sell_limit_def cancel_def get_open_orders_def get_balances_def
      get_balance_def get_deposit_address_def withdraw_def get_order_history_def
      get_order_def get_withdrawal_history_def get_deposit_history_def
      get_wallet_health_def get_balance_distribution_def get_pending_withdrawals_def
      get_pending_deposits_def generate_deposit_address_def trade_sell_def
      trade_buy_def get_candles_def get_latest_candle_def
  by (simp_all add: with_path_dict_credentials Let_def)

text \<open>
  Claim C9, as stated, fails: \<^verbatim>\<open>decrypt\<close> assigns to \<^verbatim>\<open>api_key\<close> and \<^verbatim>\<open>api_secret\<close>. A client
  constructed with the stored texts of the encrypted credentials holds, after \<^verbatim>\<open>decrypt\<close>,
  the decrypted key and secret.
\<close>

theorem decrypt_replaces_credentials:
  "Bittrex_init (demo_runtime http_markets)
     (PStr ([CHR ''b'', CHR 0x27] @ ''enc:key'' @ [CHR 0x27]))
     (PStr ([CHR ''b'', CHR 0x27] @ ''enc:secret'' @ [CHR 0x27])) 1 = Inr demo_encrypted_client \<and>
   decrypt (demo_runtime http_markets) demo_encrypted_client =
     (Inr (), demo_encrypted_client\<lparr>api_key := PStr ''key'', api_secret := PStr ''secret''\<rparr>) \<and>
   credentials (snd (decrypt (demo_runtime http_markets) demo_encrypted_client)) \<noteq>
     credentials demo_encrypted_client"
  by (simp add: Bittrex_init_def py_format_def API_URI_def BASE_PATH_def demo_encrypted_client_def
      decrypt_def decrypt_literals_def demo_runtime_def demo_literal_eval_def demo_decrypt_def
      credentials_def Let_def)

text \<open>
  Claim C9, amended. No operation other than \<^verbatim>\<open>decrypt\<close> changes the credentials: \<^verbatim>\<open>wait\<close>,
  \<^verbatim>\<open>_api_query\<close>, every endpoint operation and \<^verbatim>\<open>list_markets_by_currency\<close> return a client with
  the credentials they were given (\<^verbatim>\<open>dispatch\<close> only reads the client), and so does \<^verbatim>\<open>decrypt\<close>
  itself when pycrypto is not installed, where it raises \<^verbatim>\<open>ImportError\<close>.
\<close>

theorem credentials_change_only_in_decrypt:
  "credentials (fst (wait rt self w)) = credentials self \<and>
   credentials (fst (snd (api_query rt self w protection path_dict options body))) =
     credentials self \<and>
   credentials (fst (snd (get_markets rt self w))) = credentials self \<and>
   credentials (fst (snd (get_currencies rt self w))) = credentials self \<and>
   credentials (fst (snd (get_market_summaries rt self w))) = credentials self \<and>
   credentials (fst (snd (get_market_summary rt self w market))) = credentials self \<and>
   credentials (fst (snd (get_market_ticker rt self w market))) = credentials self \<and>
   credentials (fst (snd (list_markets_by_currency rt self w name))) = credentials self \<and>
   credentials (fst (snd (buy_limit rt self w market quantity rate))) = credentials self \<and>
   credentials (fst (snd (sell_limit rt self w market quantity rate))) = credentials self \<and>
   credentials (fst (snd (cancel rt self w uuid))) = credentials self \<and>
   credentials (fst (snd (get_open_orders rt self w market))) = credentials self \<and>
   credentials (fst (snd (get_balances rt self w))) = credentials self \<and>
   credentials (fst (snd (get_balance rt self w currency))) = credentials self \<and>
   credentials (fst (snd (get_deposit_address rt self w currency))) = credentials self \<and>
   credentials (fst (snd (withdraw rt self w currency quantity address paymentid))) =
     credentials self \<and>
   credentials (fst (snd (get_order_history rt self w market))) = credentials self \<and>
   credentials (fst (snd (get_order rt self w uuid))) = credentials self \<and>
   credentials (fst (snd (get_withdrawal_history rt self w currency))) = credentials self \<and>
   credentials (fst (snd (get_deposit_history rt self w currency))) = credentials self \<and>
   credentials (fst (snd (get_wallet_health rt self w))) = credentials self \<and>
   credentials (fst (snd (get_balance_distribution rt self w))) = credentials self \<and>
   credentials (fst (snd (get_pending_withdrawals rt self w currency))) = credentials self \<and>
   credentials (fst (snd (get_pending_deposits rt self w currency))) = credentials self \<and>
   credentials (fst (snd (generate_deposit_address rt self w currency))) = credentials self \<and>
   credentials (fst (snd (trade_sell rt self w market order_type quantity rate time_in_effect condition_type target))) =
     credentials self \<and>
   credentials (fst (snd (trade_buy rt self w market order_type quantity rate time_in_effect condition_type target))) =
     credentials self \<and>
   credentials (fst (snd (get_candles rt self w market tick_interval))) = credentials self \<and>
   credentials (fst (snd (get_latest_candle rt self w market tick_interval))) =
     credentials self \<and>
   (\<not> encrypted rt \<longrightarrow> decrypt rt self = (Inl pycrypto_missing, self))"
  by (simp add: wait_credentials api_query_credentials string_path_credentials
      list_markets_by_currency_client versioned_credentials decrypt_without_pycrypto)

theorem credentials_change_only_in_decrypt_witness:
  "\<not> encrypted ((demo_runtime http_markets)\<lparr>encrypted := False\<rparr>) \<and>
   decrypt ((demo_runtime http_markets)\<lparr>encrypted := False\<rparr>) demo_encrypted_client =
     (Inl pycrypto_missing, demo_encrypted_client) \<and>
   credentials (fst (snd (get_markets (demo_runtime http_markets) demo_client demo_world))) =
     (PStr ''key'', PStr ''secret'')"
  using credentials_change_only_in_decrypt
    [where rt = "(demo_runtime http_markets)\<lparr>encrypted := False\<rparr>" and
      self = demo_encrypted_client]
    credentials_change_only_in_decrypt
    [where rt = "demo_runtime http_markets" and self = demo_client and w = demo_world]
  by (simp add: credentials_def demo_client_def)

end
